theory Spec2Isabelle
  imports Main
begin

section \<open>Document tagging: the course-category table\<close>

text \<open>
  The object literal \<open>courseCategories\<close> of the admin documents page, as the list of its
  entries in source order (the order of \<open>Object.entries\<close> and \<open>Object.keys\<close>).
\<close>

definition courseCategories :: "(string \<times> string list) list" where
  "courseCategories =
    [(''Management'',
        [''Product Management with Generative & Agentic AI'',
         ''Certification Program in Business Analytics with Gen & Agentic AI'',
         ''Product Management and Agentic AI'',
         ''Advanced Project Management & Strategic Leadership'',
         ''Entrepreneurship Launchpad'',
         ''Certificate Program in Entrepreneurship and Start Up Mastery'',
         ''Certificate program in Smart Supply Chain Management'',
         ''Entrepreneurship & Leadership Toolkit Program'',
         ''Business Analytics'']),
     (''AI/ML'',
        [''Minor in AI'',
         ''Artificial Intelligence and Machine Learning'',
         ''Specialized Program in Artificial Intelligence & Machine Learning with Drone Tech'',
         ''Credit-Linked program in Artificial Intelligence & Machine Learning'']),
     (''Data Science'',
        [''Credit-Linked Program in Data Science'',
         ''Minor in Artificial Intelligence & Data Science'',
         ''Data Science'']),
     (''Marketing'',
        [''Digital Marketing with Applied AI'',
         ''HR Analytics with Gen AI for HR Professionals'',
         ''Digital Marketing'',
         ''Digital Marketing & Analytics'',
         ''Gen AI Product Launchpad'']),
     (''Software Development'',
        [''Cyber Security and Ethical Hacking with applied AI'',
         ''New Age Software Engineering Program'',
         ''Credit-Linked program in CSE & AI'',
         ''IIT Mandi Cybersecurity'',
         ''Software development 2.0 with emerging tech'',
         ''Software Development'']),
     (''Electronics'', [''Minor in Embedded Systems''])]"

text \<open>\<open>Object.keys(courseCategories)\<close>: the six category check boxes.\<close>

definition courseCategoryKeys :: "string list" where
  "courseCategoryKeys = map fst courseCategories"

text \<open>
  \<open>courseCategories[cat] || []\<close>: the courses of a category, the empty array for a string
  that is no key of the table. (Only own keys are modelled; the page passes keys.)
\<close>

definition coursesOf :: "string \<Rightarrow> string list" where
  "coursesOf cat = (case map_of courseCategories cat of Some courses \<Rightarrow> courses | None \<Rightarrow> [])"

text \<open>
  The loop of \<open>handleCourseNameToggle\<close> over \<open>Object.entries(courseCategories)\<close>: the first
  category whose course list includes the name, \<open>undefined\<close> (here \<open>None\<close>) when the loop ends
  without a \<open>break\<close>.
\<close>

fun findParentCategory :: "(string \<times> string list) list \<Rightarrow> string \<Rightarrow> string option" where
  "findParentCategory [] courseName = None"
| "findParentCategory ((category, courses) # rest) courseName =
     (if courseName \<in> set courses then Some category
      else findParentCategory rest courseName)"

text \<open>
  \<open>new Set(xs)\<close> spread back into an array: the elements of \<open>xs\<close> in the order of their
  first occurrence.
\<close>

definition set_add :: "'a list \<Rightarrow> 'a \<Rightarrow> 'a list" where
  "set_add s x = (if x \<in> set s then s else s @ [x])"

definition new_Set :: "'a list \<Rightarrow> 'a list" where
  "new_Set xs = foldl set_add [] xs"

section \<open>The admin documents page\<close>

text \<open>
  The state of \<open>AdminDocumentsPage\<close> that its handlers read and write. \<open>chosenFile\<close> is
  \<open>fileInputRef.current?.files?.[0]\<close>, the name of the chosen file if there is one. The list
  of uploaded documents is only displayed and is left out.
\<close>

record documents_page =
  isLoading :: bool
  uploading :: bool
  error :: string
  selectedCategory :: string
  selectedCourseCategories :: "string list"
  selectedCourseNames :: "string list"
  chosenFile :: "string option"

definition initialPage :: documents_page where
  "initialPage = \<lparr> isLoading = False, uploading = False, error = [],
     selectedCategory = [], selectedCourseCategories = [], selectedCourseNames = [],
     chosenFile = None \<rparr>"

text \<open>
  The two toggles. A handler reads the state of the render that created it and every click
  is handled on the latest render, so each one is a function from the page to the page.
\<close>

definition handleCourseCategoryToggle :: "string \<Rightarrow> documents_page \<Rightarrow> documents_page" where
  "handleCourseCategoryToggle courseCategory p =
     (let coursesInCat = coursesOf courseCategory;
          isCurrentlySelected = (courseCategory \<in> set (selectedCourseCategories p))
      in p\<lparr> selectedCourseCategories :=
               (if isCurrentlySelected
                then filter (\<lambda>c. c \<noteq> courseCategory) (selectedCourseCategories p)
                else selectedCourseCategories p @ [courseCategory]),
             selectedCourseNames :=
               (if isCurrentlySelected
                then filter (\<lambda>name. name \<notin> set coursesInCat) (selectedCourseNames p)
                else new_Set (selectedCourseNames p @ coursesInCat)) \<rparr>)"

definition handleCourseNameToggle :: "string \<Rightarrow> documents_page \<Rightarrow> documents_page" where
  "handleCourseNameToggle courseName p =
     (let newSelectedCourseNames =
            (if courseName \<in> set (selectedCourseNames p)
             then filter (\<lambda>name. name \<noteq> courseName) (selectedCourseNames p)
             else selectedCourseNames p @ [courseName]);
          p1 = p\<lparr> selectedCourseNames := newSelectedCourseNames \<rparr>
      in if courseName \<in> set (selectedCourseNames p)
         then (case findParentCategory courseCategories courseName of
                 None \<Rightarrow> p1
               | Some parentCategory \<Rightarrow>
                   if parentCategory \<noteq> [] then
                     (let coursesInParentCat = coursesOf parentCategory;
                          isAnyOtherCourseSelected =
                            (\<exists>cn \<in> set coursesInParentCat. cn \<in> set newSelectedCourseNames)
                      in if \<not> isAnyOtherCourseSelected
                         then p1\<lparr> selectedCourseCategories :=
                                filter (\<lambda>cat. cat \<noteq> parentCategory) (selectedCourseCategories p1) \<rparr>
                         else p1)
                   else p1)
         else p1)"

definition availableCoursesForSelection :: "documents_page \<Rightarrow> string list" where
  "availableCoursesForSelection p = concat (map coursesOf (selectedCourseCategories p))"

text \<open>The tagging invariant: every selected course name has a parent category, and it is selected.\<close>

definition parentSelected :: "documents_page \<Rightarrow> bool" where
  "parentSelected p =
     (\<forall>name \<in> set (selectedCourseNames p).
        case findParentCategory courseCategories name of
          None \<Rightarrow> False
        | Some cat \<Rightarrow> cat \<in> set (selectedCourseCategories p))"

text \<open>
  \<open>categoryGuides\<close>: the three top-level document categories with their labels (the
  subcategory lists are only displayed). The \<open>Select\<close> offers exactly these values.
\<close>

definition categoryGuides :: "(string \<times> string) list" where
  "categoryGuides =
    [(''program_details_documents'', ''Program Details''),
     (''curriculum_documents'', ''Curriculum Documents''),
     (''qa_documents'', ''FAQ'')]"

subsection \<open>Upload\<close>

text \<open>The multipart form that \<open>handleUpload\<close> sends, and the requests the page issues.\<close>

record upload_form =
  form_file :: string
  form_categories :: "string list"
  form_course_categories :: "string list"
  form_course_names :: "string list"

datatype request = UploadDocument upload_form | ListDocuments

text \<open>
  What the upload request comes back with: an ok response, a response that is not ok (with
  the \<open>detail\<close> of its body if it has one), or a rejected promise with its message.
\<close>

datatype upload_reply = UploadOk | UploadNotOk "string option" | UploadThrew string

definition uploadValidationMessage :: string where
  "uploadValidationMessage =
     ''Please select a document category, at least one course category, and upload a file.''"

text \<open>
  \<open>handleUpload\<close>, with the reply of the backend as a parameter. The result is the page
  after the handler has run and the requests it has issued, in order. After a successful
  upload the handler calls \<open>fetchDocuments\<close>, which sets \<open>isLoading\<close>, clears \<open>error\<close> and
  issues the list request; the \<open>finally\<close> block clears \<open>uploading\<close> on every path that set it.
\<close>

definition handleUpload :: "(upload_form \<Rightarrow> upload_reply) \<Rightarrow> documents_page \<Rightarrow> documents_page \<times> request list" where
  "handleUpload backend p =
     (let rejected = (p\<lparr> error := uploadValidationMessage \<rparr>, [])
      in case chosenFile p of
           None \<Rightarrow> rejected
         | Some file \<Rightarrow>
             if selectedCategory p = [] \<or> selectedCourseCategories p = [] then rejected
             else
               (let formData = \<lparr> form_file = file,
                                  form_categories = [selectedCategory p],
                                  form_course_categories = selectedCourseCategories p,
                                  form_course_names = selectedCourseNames p \<rparr>
                in case backend formData of
                     UploadOk \<Rightarrow>
                       (p\<lparr> isLoading := True, uploading := False, error := [],
                           selectedCategory := [], selectedCourseCategories := [],
                           selectedCourseNames := [], chosenFile := None \<rparr>,
                        [UploadDocument formData, ListDocuments])
                   | UploadNotOk detail \<Rightarrow>
                       (p\<lparr> uploading := False,
                           error := ''Failed to upload document: '' @
                             (case detail of
                                Some d \<Rightarrow> if d \<noteq> [] then d else ''Upload failed''
                              | None \<Rightarrow> ''Upload failed'') \<rparr>,
                        [UploadDocument formData])
                   | UploadThrew msg \<Rightarrow>
                       (p\<lparr> uploading := False, error := ''Failed to upload document: '' @ msg \<rparr>,
                        [UploadDocument formData])))"

text \<open>The \<open>disabled\<close> attribute of the submit button.\<close>

definition uploadDisabled :: "documents_page \<Rightarrow> bool" where
  "uploadDisabled p \<longleftrightarrow>
     uploading p \<or> selectedCategory p = [] \<or> selectedCourseCategories p = []"

subsection \<open>What the page lets the admin do\<close>

text \<open>
  The controls of the form. A category check box exists for every key of the table; a
  course check box exists for every entry of \<open>availableCoursesForSelection\<close>, and the block
  holding them is rendered only while a category is selected; the \<open>Select\<close> offers the three
  guide categories; the form can be submitted with any reply of the backend.
\<close>

datatype event =
    ToggleCourseCategory string
  | ToggleCourseName string
  | SelectCategory string
  | ChooseFile "string option"
  | Submit upload_reply

fun enabled :: "documents_page \<Rightarrow> event \<Rightarrow> bool" where
  "enabled p (ToggleCourseCategory c) = (c \<in> set courseCategoryKeys)"
| "enabled p (ToggleCourseName n) =
     (selectedCourseCategories p \<noteq> [] \<and> n \<in> set (availableCoursesForSelection p))"
| "enabled p (SelectCategory g) = (g \<in> set (map fst categoryGuides))"
| "enabled p (ChooseFile f) = True"
| "enabled p (Submit r) = True"

fun fire :: "event \<Rightarrow> documents_page \<Rightarrow> documents_page" where
  "fire (ToggleCourseCategory c) p = handleCourseCategoryToggle c p"
| "fire (ToggleCourseName n) p = handleCourseNameToggle n p"
| "fire (SelectCategory g) p = p\<lparr> selectedCategory := g \<rparr>"
| "fire (ChooseFile f) p = p\<lparr> chosenFile := f \<rparr>"
| "fire (Submit r) p = fst (handleUpload (\<lambda>_. r) p)"

inductive reachable :: "documents_page \<Rightarrow> bool" where
  start: "reachable initialPage"
| step: "reachable p \<Longrightarrow> enabled p e \<Longrightarrow> reachable (fire e p)"

text \<open>The same as a function: the page after a sequence of actions, each one enabled in turn.\<close>

fun runEvents :: "event list \<Rightarrow> documents_page \<Rightarrow> documents_page option" where
  "runEvents [] p = Some p"
| "runEvents (e # es) p = (if enabled p e then runEvents es (fire e p) else None)"

section \<open>Tickets\<close>

datatype status =
    Open | WorkInProgress | StudentActionRequired | AdminActionRequired | Resolved | Closed

datatype sender_role = Student | Admin | Agent

text \<open>
  The interfaces \<open>Message\<close> and \<open>TicketDetail\<close> of the types module. Field names carry a
  prefix because the interfaces share names. Optional fields are options;
  \<open>confidence_score\<close>, \<open>subcategory_data\<close> and the leave dates are not read by any code
  below and are left out.
\<close>

record message =
  m_id :: string
  m_ticket_id :: string
  m_sender_role :: sender_role
  m_sender_id :: "string option"
  m_message :: string
  m_timestamp :: string
  m_sender_email :: "string option"

record ticket_detail =
  td_id :: string
  td_user_id :: string
  td_category :: string
  td_status :: status
  td_title :: string
  td_message :: string
  td_attachments :: "string list"
  td_assigned_to :: "string option"
  td_rating :: "int option"
  td_created_at :: string
  td_updated_at :: "string option"

record ticket_detail_response =
  tdr_ticket :: ticket_detail
  tdr_conversations :: "message list"

subsection \<open>The ticket detail pages\<close>

text \<open>
  The state of \<open>TicketDetailPage\<close> and of \<open>AdminTicketDetailPage\<close> (the same three hooks),
  with the route parameter \<open>params.id\<close>.
\<close>

record ticket_page =
  params_id :: string
  tp_ticket :: "ticket_detail_response option"
  selectedRating :: "int option"
  tp_isLoading :: bool

text \<open>The requests the pages send to the backend.\<close>

datatype api_call =
    RateCall string int
  | ReopenCall string
  | MessageCall string string "string list"

text \<open>
  Both pages return the spinner while loading and the not-found card without a ticket;
  everything else is rendered only for a loaded ticket.
\<close>

definition loadedStatus :: "ticket_page \<Rightarrow> status option" where
  "loadedStatus pg =
     (if tp_isLoading pg then None
      else case tp_ticket pg of None \<Rightarrow> None | Some t \<Rightarrow> Some (td_status (tdr_ticket t)))"

text \<open>\<open>ticket.ticket.status === "Resolved" && <Button ... REOPEN TICKET>\<close>\<close>

definition reopenButtonShown :: "ticket_page \<Rightarrow> bool" where
  "reopenButtonShown pg \<longleftrightarrow> loadedStatus pg = Some Resolved"



text \<open>\<open>ticket.ticket.status === "Resolved" && <Card> Rating & Feedback ...\<close>\<close>

definition ratingSectionShown :: "ticket_page \<Rightarrow> bool" where
  "ratingSectionShown pg \<longleftrightarrow> loadedStatus pg = Some Resolved"

text \<open>The five emoji of \<open>ratingEmojis\<close>, by name.\<close>

definition ratingEmojis :: "string list" where
  "ratingEmojis = [''angry'', ''disappointed'', ''neutral'', ''smiling'', ''heart-eyes'']"

text \<open>One button per emoji, with \<open>rating = index + 1\<close>.\<close>

definition ratingButtons :: "int list" where
  "ratingButtons = map (\<lambda>index. int index + 1) [0 ..< length ratingEmojis]"

text \<open>
  \<open>handleRating\<close>: remembers the rating and posts it to the backend; the reply is not read.
\<close>

definition handleRating :: "int \<Rightarrow> ticket_page \<Rightarrow> ticket_page \<times> api_call list" where
  "handleRating rating pg =
     (pg\<lparr> selectedRating := Some rating \<rparr>, [RateCall (params_id pg) rating])"

text \<open>
  \<open>handleReopenTicket\<close>: posts to the backend and calls \<open>router.refresh()\<close>; the state of the
  page is not written.
\<close>

definition handleReopenTicket :: "ticket_page \<Rightarrow> ticket_page \<times> api_call list" where
  "handleReopenTicket pg = (pg, [ReopenCall (params_id pg)])"


text \<open>
  What a user can do on the pages: a handler runs only through the control that carries
  it, so an action on a control that is not rendered is \<open>None\<close>.
\<close>

definition clickRating :: "int \<Rightarrow> ticket_page \<Rightarrow> (ticket_page \<times> api_call list) option" where
  "clickRating rating pg =
     (if ratingSectionShown pg \<and> rating \<in> set ratingButtons
      then Some (handleRating rating pg) else None)"

definition clickReopen :: "ticket_page \<Rightarrow> (ticket_page \<times> api_call list) option" where
  "clickReopen pg = (if reopenButtonShown pg then Some (handleReopenTicket pg) else None)"



subsection \<open>The rate and reopen routes\<close>

text \<open>
  A JSON value as \<open>request.json()\<close> yields it. No code here reads the value of a number, so
  the type of numbers is left open. The members of an object are kept in the order of the
  text; \<open>JSON.parse\<close> makes each key an own property and lets the last of equal keys win.
\<close>

datatype 'n json =
    JNull | JBool bool | JNum 'n | JStr string | JArr "'n json list"
  | JObj "(string \<times> 'n json) list"

text \<open>A response of \<open>NextResponse.json\<close>: its status (200 unless given) and the one field of its body.\<close>

record http_response =
  status_code :: nat
  body :: "string \<times> string"

text \<open>
  \<open>const { rating } = body\<close> for a body that is not \<open>null\<close>: the own property of an object,
  \<open>undefined\<close> (here \<open>None\<close>) when the object has no such key and for every body that is not an
  object (a boolean, number, string or array has no property \<open>rating\<close>).
\<close>

fun ratingOf :: "'n json \<Rightarrow> 'n json option" where
  "ratingOf (JObj members) = map_of (rev members) ''rating''"
| "ratingOf _ = None"

text \<open>
  Whether the template literal \<open>${value}\<close> throws a TypeError. Converting an object to a
  string calls its \<open>toString\<close> and then its \<open>valueOf\<close>: with an own key \<open>toString\<close> (never a
  function in JSON) neither yields a primitive, without one the inherited \<open>toString\<close> answers.
  An array is joined, which converts every element that is not \<open>null\<close>. Nothing else throws.
\<close>

fun toStringThrows :: "'n json \<Rightarrow> bool" where
  "toStringThrows (JObj members) = (''toString'' \<in> set (map fst members))"
| "toStringThrows (JArr elements) = (\<exists>x \<in> set elements. toStringThrows x)"
| "toStringThrows _ = False"

text \<open>
  \<open>POST\<close> of the rate route. The request body is \<open>None\<close> when \<open>request.json()\<close> rejects (no
  JSON). Destructuring \<open>{ rating }\<close> throws on \<open>null\<close>, and the log line
  \<open>`Rating ticket ${ticketId} with ${rating} stars`\<close> throws when the rating cannot be
  converted to a string; every failure ends in the \<open>catch\<close> block. Otherwise the route
  answers with the success message. It compares the rating with nothing and reads no ticket.
\<close>

definition rate_POST :: "'n json option \<Rightarrow> string \<Rightarrow> http_response" where
  "rate_POST requestBody ticketId =
     (let failed = \<lparr> status_code = 500, body = (''error'', ''Failed to submit rating'') \<rparr>
      in case requestBody of
           None \<Rightarrow> failed
         | Some JNull \<Rightarrow> failed
         | Some parsed \<Rightarrow>
             (case ratingOf parsed of
                None \<Rightarrow>
                  \<lparr> status_code = 200, body = (''message'', ''Rating submitted successfully'') \<rparr>
              | Some rating \<Rightarrow>
                  if toStringThrows rating then failed
                  else \<lparr> status_code = 200,
                         body = (''message'', ''Rating submitted successfully'') \<rparr>))"

text \<open>
  \<open>POST\<close> of the reopen route: nothing in its \<open>try\<close> block can throw; it logs a line and
  answers. It reads no ticket.
\<close>

definition reopen_POST :: "string \<Rightarrow> http_response" where
  "reopen_POST ticketId =
     \<lparr> status_code = 200, body = (''message'', ''Ticket reopened successfully'') \<rparr>"

subsection \<open>Sample data\<close>

text \<open>A ticket of a given status with one student message, loaded in a detail page.\<close>

definition sampleMessage :: "string \<Rightarrow> sender_role \<Rightarrow> string \<Rightarrow> message" where
  "sampleMessage i role txt =
     \<lparr> m_id = i, m_ticket_id = ''TKT-1'', m_sender_role = role, m_sender_id = None,
       m_message = txt, m_timestamp = ''2025-01-01T10:00:00'', m_sender_email = None \<rparr>"

definition sampleTicket :: "status \<Rightarrow> ticket_detail" where
  "sampleTicket s =
     \<lparr> td_id = ''TKT-1'', td_user_id = ''u1'', td_category = ''Course Query'', td_status = s,
       td_title = ''Cannot access Unit 3'', td_message = ''Please help'', td_attachments = [],
       td_assigned_to = None, td_rating = None, td_created_at = ''2025-01-01T10:00:00'',
       td_updated_at = None \<rparr>"

definition samplePage :: "status \<Rightarrow> ticket_page" where
  "samplePage s =
     \<lparr> params_id = ''TKT-1'',
       tp_ticket = Some \<lparr> tdr_ticket = sampleTicket s,
                          tdr_conversations = [sampleMessage ''m1'' Student ''Please help''] \<rparr>,
       selectedRating = None, tp_isLoading = False \<rparr>"

section \<open>Facts about the table\<close>

lemma courseCategories_keys_distinct: "distinct (map fst courseCategories)"
  by (simp add: courseCategories_def)

lemma courseCategories_courses_distinct: "distinct (concat (map snd courseCategories))"
  by (simp add: courseCategories_def)

lemma courseCategories_keys_nonempty: "[] \<notin> set (map fst courseCategories)"
  by (simp add: courseCategories_def)

lemma set_foldl_set_add: "set (foldl set_add acc xs) = set acc \<union> set xs"
  by (induction xs arbitrary: acc) (auto simp: set_add_def)

lemma set_new_Set: "set (new_Set xs) = set xs"
  by (simp add: new_Set_def set_foldl_set_add)

lemma distinct_foldl_set_add: "distinct acc \<Longrightarrow> distinct (foldl set_add acc xs)"
  by (induction xs arbitrary: acc) (auto simp: set_add_def)

lemma distinct_new_Set: "distinct (new_Set xs)"
  by (simp add: new_Set_def distinct_foldl_set_add)

lemma findParentCategory_SomeD:
  "findParentCategory tbl n = Some c \<Longrightarrow> \<exists>cs. (c, cs) \<in> set tbl \<and> n \<in> set cs"
  by (induction tbl n rule: findParentCategory.induct) (auto split: if_splits)

lemma findParentCategory_unique:
  "distinct (concat (map snd tbl)) \<Longrightarrow> (c, cs) \<in> set tbl \<Longrightarrow> n \<in> set cs \<Longrightarrow>
   findParentCategory tbl n = Some c"
proof (induction tbl n rule: findParentCategory.induct)
  case (1 courseName)
  then show ?case by simp
next
  case (2 category courses rest courseName)
  show ?case
  proof (cases "courseName \<in> set courses")
    case True
    have "c = category"
    proof (rule ccontr)
      assume "c \<noteq> category"
      with "2.prems" have "(c, cs) \<in> set rest" by auto
      then have "courseName \<in> (\<Union>a\<in>set rest. set (snd a))"
        using "2.prems"(3) by force
      with "2.prems"(1) True show False by auto
    qed
    with True show ?thesis by simp
  next
    case False
    with "2.prems" have "(c, cs) \<in> set rest" by auto
    with 2 False show ?thesis by simp
  qed
qed

lemma coursesOf_entry: "(c, cs) \<in> set courseCategories \<Longrightarrow> coursesOf c = cs"
  by (simp add: coursesOf_def courseCategories_keys_distinct)

lemma coursesOf_nonkey: "c \<notin> set courseCategoryKeys \<Longrightarrow> coursesOf c = []"
  by (simp add: coursesOf_def courseCategoryKeys_def map_of_eq_None_iff [THEN iffD2])

lemma coursesOf_mem_entry:
  "n \<in> set (coursesOf c) \<Longrightarrow> (c, coursesOf c) \<in> set courseCategories"
  by (auto simp: coursesOf_def split: option.splits dest: map_of_SomeD)

lemma parent_iff:
  "findParentCategory courseCategories n = Some c \<longleftrightarrow> n \<in> set (coursesOf c)"
proof
  assume "findParentCategory courseCategories n = Some c"
  then obtain cs where "(c, cs) \<in> set courseCategories" "n \<in> set cs"
    using findParentCategory_SomeD by blast
  then show "n \<in> set (coursesOf c)" by (simp add: coursesOf_entry)
next
  assume h: "n \<in> set (coursesOf c)"
  then have "(c, coursesOf c) \<in> set courseCategories" by (rule coursesOf_mem_entry)
  with h show "findParentCategory courseCategories n = Some c"
    using findParentCategory_unique [OF courseCategories_courses_distinct] by blast
qed

lemma parent_nonempty: "findParentCategory courseCategories n = Some c \<Longrightarrow> c \<noteq> []"
proof -
  assume "findParentCategory courseCategories n = Some c"
  then obtain cs where "(c, cs) \<in> set courseCategories"
    using findParentCategory_SomeD by blast
  then have "c \<in> set (map fst courseCategories)" by force
  with courseCategories_keys_nonempty show ?thesis by metis
qed

lemma parentSelected_iff:
  "parentSelected p \<longleftrightarrow>
   (\<forall>n \<in> set (selectedCourseNames p). \<exists>c \<in> set (selectedCourseCategories p). n \<in> set (coursesOf c))"
  by (auto simp: parentSelected_def parent_iff [symmetric] split: option.splits)


lemma toggleCat_inv: "parentSelected p \<Longrightarrow> parentSelected (handleCourseCategoryToggle c p)"
  unfolding parentSelected_iff handleCourseCategoryToggle_def Let_def
  by (auto simp: set_new_Set)


lemma names_toggleCat:
  "selectedCourseNames (handleCourseCategoryToggle c p) =
     (if c \<in> set (selectedCourseCategories p)
      then filter (\<lambda>name. name \<notin> set (coursesOf c)) (selectedCourseNames p)
      else new_Set (selectedCourseNames p @ coursesOf c))"
  by (simp add: handleCourseCategoryToggle_def Let_def)

lemma cats_toggleCat:
  "selectedCourseCategories (handleCourseCategoryToggle c p) =
     (if c \<in> set (selectedCourseCategories p)
      then filter (\<lambda>x. x \<noteq> c) (selectedCourseCategories p)
      else selectedCourseCategories p @ [c])"
  by (simp add: handleCourseCategoryToggle_def Let_def)

lemma names_toggleName:
  "selectedCourseNames (handleCourseNameToggle n p) =
     (if n \<in> set (selectedCourseNames p)
      then filter (\<lambda>name. name \<noteq> n) (selectedCourseNames p)
      else selectedCourseNames p @ [n])"
  by (simp add: handleCourseNameToggle_def Let_def split: option.split)

lemma cats_toggleName:
  "selectedCourseCategories (handleCourseNameToggle n p) =
     (if n \<in> set (selectedCourseNames p)
      then (case findParentCategory courseCategories n of
              None \<Rightarrow> selectedCourseCategories p
            | Some par \<Rightarrow>
                if par \<noteq> [] \<and>
                   \<not> (\<exists>cn \<in> set (coursesOf par).
                        cn \<in> set (filter (\<lambda>name. name \<noteq> n) (selectedCourseNames p)))
                then filter (\<lambda>cat. cat \<noteq> par) (selectedCourseCategories p)
                else selectedCourseCategories p)
      else selectedCourseCategories p)"
  by (cases "findParentCategory courseCategories n")
     (auto simp add: handleCourseNameToggle_def Let_def)

lemma toggleName_inv:
  assumes inv: "parentSelected p" and av: "n \<in> set (availableCoursesForSelection p)"
  shows "parentSelected (handleCourseNameToggle n p)"
proof (cases "n \<in> set (selectedCourseNames p)")
  case False
  from av obtain c where "c \<in> set (selectedCourseCategories p)" "n \<in> set (coursesOf c)"
    by (auto simp: availableCoursesForSelection_def)
  with inv False show ?thesis
    unfolding parentSelected_iff by (auto simp: names_toggleName cats_toggleName)
next
  case True
  with inv obtain par where par: "par \<in> set (selectedCourseCategories p)" "n \<in> set (coursesOf par)"
    unfolding parentSelected_iff by blast
  then have fp: "findParentCategory courseCategories n = Some par" by (simp add: parent_iff)
  then have ne: "par \<noteq> []" by (rule parent_nonempty)
  show ?thesis
    unfolding parentSelected_iff
  proof
    fix m assume m: "m \<in> set (selectedCourseNames (handleCourseNameToggle n p))"
    then have m1: "m \<in> set (selectedCourseNames p)" "m \<noteq> n"
      using True by (auto simp: names_toggleName)
    with inv obtain c where c: "c \<in> set (selectedCourseCategories p)" "m \<in> set (coursesOf c)"
      unfolding parentSelected_iff by blast
    show "\<exists>c\<in>set (selectedCourseCategories (handleCourseNameToggle n p)). m \<in> set (coursesOf c)"
    proof (cases "c = par")
      case True
      with c m1 have "\<exists>cn \<in> set (coursesOf par).
          cn \<in> set (filter (\<lambda>name. name \<noteq> n) (selectedCourseNames p))"
        by auto
      then have "selectedCourseCategories (handleCourseNameToggle n p) = selectedCourseCategories p"
        using \<open>n \<in> set (selectedCourseNames p)\<close> fp by (simp add: cats_toggleName)
      with c show ?thesis by auto
    next
      case False
      then have "c \<in> set (selectedCourseCategories (handleCourseNameToggle n p))"
        using c(1) \<open>n \<in> set (selectedCourseNames p)\<close> fp by (simp add: cats_toggleName)
      with c(2) show ?thesis by blast
    qed
  qed
qed

lemma coursesOf_AIML:
  "coursesOf ''AI/ML'' =
     [''Minor in AI'',
      ''Artificial Intelligence and Machine Learning'',
      ''Specialized Program in Artificial Intelligence & Machine Learning with Drone Tech'',
      ''Credit-Linked program in Artificial Intelligence & Machine Learning'']"
  by (simp add: coursesOf_def courseCategories_def)

lemma coursesOf_Electronics: "coursesOf ''Electronics'' = [''Minor in Embedded Systems'']"
  by (simp add: coursesOf_def courseCategories_def)

lemma new_Set_distinct_id_aux:
  "distinct (acc @ xs) \<Longrightarrow> foldl set_add acc xs = acc @ xs"
  by (induction xs arbitrary: acc) (auto simp: set_add_def)

lemma new_Set_distinct_id: "distinct xs \<Longrightarrow> new_Set xs = xs"
  using new_Set_distinct_id_aux [of "[]" xs] by (simp add: new_Set_def)

lemma filter_foldl_set_add:
  "filter P (foldl set_add acc xs) = foldl set_add (filter P acc) (filter P xs)"
  by (induction xs arbitrary: acc) (auto simp: set_add_def)

lemma filter_new_Set: "filter P (new_Set xs) = new_Set (filter P xs)"
  by (simp add: new_Set_def filter_foldl_set_add)

section \<open>The category cascade\<close>

text \<open>
  Claim C6. Selecting a course name that is not selected appends it to the selected course
  names and changes nothing else on the page: in particular the selected course categories
  stay as they are, so the parent category is never selected on the way.
\<close>

theorem select_course_keeps_categories:
  "n \<notin> set (selectedCourseNames p) \<Longrightarrow>
   handleCourseNameToggle n p = p\<lparr> selectedCourseNames := selectedCourseNames p @ [n] \<rparr>
   \<and> selectedCourseCategories (handleCourseNameToggle n p) = selectedCourseCategories p"
  by (simp add: handleCourseNameToggle_def Let_def)

theorem select_course_keeps_categories_witness:
  "''Minor in AI'' \<notin> set (selectedCourseNames
       (initialPage\<lparr> selectedCourseCategories := [''AI/ML''],
                     selectedCourseNames := [''Artificial Intelligence and Machine Learning''] \<rparr>))
   \<and> selectedCourseCategories (handleCourseNameToggle ''Minor in AI''
       (initialPage\<lparr> selectedCourseCategories := [''AI/ML''],
                     selectedCourseNames := [''Artificial Intelligence and Machine Learning''] \<rparr>))
     = [''AI/ML'']"
  using select_course_keeps_categories [of "''Minor in AI''"
       "initialPage\<lparr> selectedCourseCategories := [''AI/ML''],
                     selectedCourseNames := [''Artificial Intelligence and Machine Learning''] \<rparr>"]
  by simp

text \<open>
  Claim C5. Deselecting a selected course name \<open>n\<close> of category \<open>par\<close> removes \<open>n\<close> from the
  selected course names, and the selected course categories lose \<open>par\<close> exactly when no other
  selected course name belongs to \<open>par\<close>; otherwise they are unchanged.
\<close>

theorem deselect_last_course_deselects_parent:
  assumes sel: "n \<in> set (selectedCourseNames p)" and par: "n \<in> set (coursesOf par)"
  shows "selectedCourseNames (handleCourseNameToggle n p) =
           filter (\<lambda>name. name \<noteq> n) (selectedCourseNames p)
         \<and> selectedCourseCategories (handleCourseNameToggle n p) =
           (if \<forall>m \<in> set (selectedCourseNames p). m \<in> set (coursesOf par) \<longrightarrow> m = n
            then filter (\<lambda>cat. cat \<noteq> par) (selectedCourseCategories p)
            else selectedCourseCategories p)
         \<and> (par \<in> set (selectedCourseCategories p) \<longrightarrow>
              (par \<notin> set (selectedCourseCategories (handleCourseNameToggle n p)) \<longleftrightarrow>
               (\<forall>m \<in> set (selectedCourseNames p). m \<in> set (coursesOf par) \<longrightarrow> m = n)))"
proof -
  from par have fp: "findParentCategory courseCategories n = Some par" by (simp add: parent_iff)
  then have ne: "par \<noteq> []" by (rule parent_nonempty)
  have names: "selectedCourseNames (handleCourseNameToggle n p) =
           filter (\<lambda>name. name \<noteq> n) (selectedCourseNames p)"
    using sel by (simp add: names_toggleName)
  have cats: "selectedCourseCategories (handleCourseNameToggle n p) =
           (if \<forall>m \<in> set (selectedCourseNames p). m \<in> set (coursesOf par) \<longrightarrow> m = n
            then filter (\<lambda>cat. cat \<noteq> par) (selectedCourseCategories p)
            else selectedCourseCategories p)"
    using sel fp ne by (auto simp: cats_toggleName)
  from names cats show ?thesis by auto
qed

theorem deselect_last_course_deselects_parent_witness:
  "''Minor in Embedded Systems'' \<in> set (coursesOf ''Electronics'')
   \<and> ''Minor in AI'' \<in> set (coursesOf ''AI/ML'')
   \<and> selectedCourseCategories (handleCourseNameToggle ''Minor in Embedded Systems''
       (initialPage\<lparr> selectedCourseCategories := [''AI/ML'', ''Electronics''],
                     selectedCourseNames := [''Minor in AI'', ''Minor in Embedded Systems''] \<rparr>))
     = [''AI/ML'']
   \<and> selectedCourseCategories (handleCourseNameToggle ''Minor in AI''
       (initialPage\<lparr> selectedCourseCategories := [''AI/ML''],
                     selectedCourseNames := [''Minor in AI'',
                        ''Artificial Intelligence and Machine Learning''] \<rparr>))
     = [''AI/ML'']"
  using deselect_last_course_deselects_parent [of "''Minor in Embedded Systems''"
       "initialPage\<lparr> selectedCourseCategories := [''AI/ML'', ''Electronics''],
                     selectedCourseNames := [''Minor in AI'', ''Minor in Embedded Systems''] \<rparr>"
       "''Electronics''"]
    deselect_last_course_deselects_parent [of "''Minor in AI''"
       "initialPage\<lparr> selectedCourseCategories := [''AI/ML''],
                     selectedCourseNames := [''Minor in AI'',
                        ''Artificial Intelligence and Machine Learning''] \<rparr>"
       "''AI/ML''"]
  by (simp add: coursesOf_AIML coursesOf_Electronics)

lemma available_toggleCat_new:
  "c \<notin> set (selectedCourseCategories p) \<Longrightarrow>
   availableCoursesForSelection (handleCourseCategoryToggle c p) =
     availableCoursesForSelection p @ coursesOf c"
  by (simp add: availableCoursesForSelection_def cats_toggleCat)

text \<open>
  Claim C4. Toggling a category that is not selected selects it and adds all its course names
  to the selected course names; toggling a selected category deselects it and removes all
  its course names. "AI/ML" has four courses: selecting it makes them all selected and adds
  four entries to the available courses, which are exactly those four when no category was
  selected before (as on the initial page and after every successful upload).
\<close>

theorem category_toggle_cascades:
  "(c \<notin> set (selectedCourseCategories p) \<longrightarrow>
      set (selectedCourseNames (handleCourseCategoryToggle c p)) =
        set (selectedCourseNames p) \<union> set (coursesOf c)
      \<and> selectedCourseCategories (handleCourseCategoryToggle c p) =
        selectedCourseCategories p @ [c])
   \<and> (c \<in> set (selectedCourseCategories p) \<longrightarrow>
      set (selectedCourseNames (handleCourseCategoryToggle c p)) =
        set (selectedCourseNames p) - set (coursesOf c)
      \<and> c \<notin> set (selectedCourseCategories (handleCourseCategoryToggle c p)))
   \<and> length (coursesOf ''AI/ML'') = 4
   \<and> (''AI/ML'' \<notin> set (selectedCourseCategories p) \<longrightarrow>
      set (coursesOf ''AI/ML'') \<subseteq>
        set (selectedCourseNames (handleCourseCategoryToggle ''AI/ML'' p))
      \<and> length (availableCoursesForSelection (handleCourseCategoryToggle ''AI/ML'' p)) =
        length (availableCoursesForSelection p) + 4)
   \<and> (selectedCourseCategories p = [] \<longrightarrow>
      availableCoursesForSelection (handleCourseCategoryToggle ''AI/ML'' p) = coursesOf ''AI/ML''
      \<and> length (availableCoursesForSelection (handleCourseCategoryToggle ''AI/ML'' p)) = 4)"
proof -
  have len: "length (coursesOf ''AI/ML'') = 4" by (simp add: coursesOf_AIML)
  have a: "c \<notin> set (selectedCourseCategories p) \<longrightarrow>
      set (selectedCourseNames (handleCourseCategoryToggle c p)) =
        set (selectedCourseNames p) \<union> set (coursesOf c)
      \<and> selectedCourseCategories (handleCourseCategoryToggle c p) =
        selectedCourseCategories p @ [c]"
    by (simp add: names_toggleCat cats_toggleCat set_new_Set)
  have b: "c \<in> set (selectedCourseCategories p) \<longrightarrow>
      set (selectedCourseNames (handleCourseCategoryToggle c p)) =
        set (selectedCourseNames p) - set (coursesOf c)
      \<and> c \<notin> set (selectedCourseCategories (handleCourseCategoryToggle c p))"
    by (auto simp add: names_toggleCat cats_toggleCat)
  have c: "''AI/ML'' \<notin> set (selectedCourseCategories p) \<longrightarrow>
      set (coursesOf ''AI/ML'') \<subseteq>
        set (selectedCourseNames (handleCourseCategoryToggle ''AI/ML'' p))
      \<and> length (availableCoursesForSelection (handleCourseCategoryToggle ''AI/ML'' p)) =
        length (availableCoursesForSelection p) + 4"
    using len by (simp add: names_toggleCat set_new_Set available_toggleCat_new)
  have d: "selectedCourseCategories p = [] \<longrightarrow>
      availableCoursesForSelection (handleCourseCategoryToggle ''AI/ML'' p) = coursesOf ''AI/ML''
      \<and> length (availableCoursesForSelection (handleCourseCategoryToggle ''AI/ML'' p)) = 4"
  proof
    assume e: "selectedCourseCategories p = []"
    then have "''AI/ML'' \<notin> set (selectedCourseCategories p)" by simp
    then have "availableCoursesForSelection (handleCourseCategoryToggle ''AI/ML'' p) =
        availableCoursesForSelection p @ coursesOf ''AI/ML''"
      by (rule available_toggleCat_new)
    moreover have "availableCoursesForSelection p = []"
      using e by (simp add: availableCoursesForSelection_def)
    ultimately show "availableCoursesForSelection (handleCourseCategoryToggle ''AI/ML'' p) = coursesOf ''AI/ML''
      \<and> length (availableCoursesForSelection (handleCourseCategoryToggle ''AI/ML'' p)) = 4"
      using len by simp
  qed
  from len a b c d show ?thesis by blast
qed

theorem category_toggle_cascades_witness:
  "selectedCourseCategories initialPage = []
   \<and> selectedCourseNames (handleCourseCategoryToggle ''AI/ML'' initialPage) = coursesOf ''AI/ML''
   \<and> length (availableCoursesForSelection (handleCourseCategoryToggle ''AI/ML'' initialPage)) = 4
   \<and> ''AI/ML'' \<in> set (selectedCourseCategories (handleCourseCategoryToggle ''AI/ML'' initialPage))
   \<and> set (selectedCourseNames
        (handleCourseCategoryToggle ''AI/ML'' (handleCourseCategoryToggle ''AI/ML'' initialPage))) = {}"
proof -
  have e: "selectedCourseCategories initialPage = []" by (simp add: initialPage_def)
  have n: "selectedCourseNames initialPage = []" by (simp add: initialPage_def)
  have s1: "selectedCourseNames (handleCourseCategoryToggle ''AI/ML'' initialPage) = coursesOf ''AI/ML''"
    by (simp add: names_toggleCat e n coursesOf_AIML new_Set_def set_add_def)
  have s2: "''AI/ML'' \<in> set (selectedCourseCategories (handleCourseCategoryToggle ''AI/ML'' initialPage))"
    by (simp add: cats_toggleCat e)
  show ?thesis
    using e s1 s2
      category_toggle_cascades [of "''AI/ML''" initialPage]
      category_toggle_cascades [of "''AI/ML''" "handleCourseCategoryToggle ''AI/ML'' initialPage"]
    by simp
qed

text \<open>
  Claim C10. On a page that satisfies the parent-category invariant and on which category \<open>c\<close>
  is not selected, no course name of \<open>c\<close> is selected, and toggling \<open>c\<close> twice gives back the
  selected course categories (as a list) and the set of selected course names (the list
  itself when it has no duplicates).
\<close>

theorem category_toggle_twice:
  assumes inv: "parentSelected p" and c: "c \<notin> set (selectedCourseCategories p)"
  shows "set (selectedCourseNames p) \<inter> set (coursesOf c) = {}
         \<and> selectedCourseCategories (handleCourseCategoryToggle c (handleCourseCategoryToggle c p)) =
             selectedCourseCategories p
         \<and> set (selectedCourseCategories (handleCourseCategoryToggle c (handleCourseCategoryToggle c p))) =
             set (selectedCourseCategories p)
         \<and> set (selectedCourseNames (handleCourseCategoryToggle c (handleCourseCategoryToggle c p))) =
             set (selectedCourseNames p)
         \<and> (distinct (selectedCourseNames p) \<longrightarrow>
              selectedCourseNames (handleCourseCategoryToggle c (handleCourseCategoryToggle c p)) =
                selectedCourseNames p)"
proof -
  have none: "set (selectedCourseNames p) \<inter> set (coursesOf c) = {}"
  proof (rule ccontr)
    assume "set (selectedCourseNames p) \<inter> set (coursesOf c) \<noteq> {}"
    then obtain n where n: "n \<in> set (selectedCourseNames p)" "n \<in> set (coursesOf c)" by blast
    from n(2) have "findParentCategory courseCategories n = Some c" by (simp add: parent_iff)
    with inv n(1) have "c \<in> set (selectedCourseCategories p)"
      by (auto simp: parentSelected_def)
    with c show False by simp
  qed
  have cats1: "selectedCourseCategories (handleCourseCategoryToggle c p) = selectedCourseCategories p @ [c]"
    using c by (simp add: cats_toggleCat)
  have names1: "selectedCourseNames (handleCourseCategoryToggle c p) =
      new_Set (selectedCourseNames p @ coursesOf c)"
    using c by (simp add: names_toggleCat)
  have keep: "filter (\<lambda>x. x \<noteq> c) (selectedCourseCategories p) = selectedCourseCategories p"
    using c by (auto simp: filter_id_conv)
  have cats2: "selectedCourseCategories (handleCourseCategoryToggle c (handleCourseCategoryToggle c p)) =
      selectedCourseCategories p"
    by (simp add: cats_toggleCat [of c "handleCourseCategoryToggle c p"] cats1 keep)
  have fl: "filter (\<lambda>name. name \<notin> set (coursesOf c)) (selectedCourseNames p @ coursesOf c) =
      selectedCourseNames p"
    using none by (auto simp: filter_id_conv)
  have names2: "selectedCourseNames (handleCourseCategoryToggle c (handleCourseCategoryToggle c p)) =
      new_Set (selectedCourseNames p)"
    by (simp add: names_toggleCat [of c "handleCourseCategoryToggle c p"] cats1 names1
          filter_new_Set fl del: filter_append)
  from none cats2 names2 show ?thesis
    by (simp add: set_new_Set new_Set_distinct_id)
qed

theorem category_toggle_twice_witness:
  "parentSelected (handleCourseCategoryToggle ''Electronics'' initialPage)
   \<and> ''AI/ML'' \<notin> set (selectedCourseCategories (handleCourseCategoryToggle ''Electronics'' initialPage))
   \<and> selectedCourseCategories (handleCourseCategoryToggle ''AI/ML'' (handleCourseCategoryToggle ''AI/ML''
        (handleCourseCategoryToggle ''Electronics'' initialPage))) = [''Electronics'']
   \<and> set (selectedCourseNames (handleCourseCategoryToggle ''AI/ML'' (handleCourseCategoryToggle ''AI/ML''
        (handleCourseCategoryToggle ''Electronics'' initialPage)))) = {''Minor in Embedded Systems''}"
proof -
  have i: "parentSelected initialPage" by (simp add: parentSelected_def initialPage_def)
  have h1: "parentSelected (handleCourseCategoryToggle ''Electronics'' initialPage)"
    using i by (rule toggleCat_inv)
  have c: "selectedCourseCategories (handleCourseCategoryToggle ''Electronics'' initialPage) = [''Electronics'']"
    by (simp add: cats_toggleCat initialPage_def)
  have n: "selectedCourseNames (handleCourseCategoryToggle ''Electronics'' initialPage) =
      [''Minor in Embedded Systems'']"
    by (simp add: names_toggleCat initialPage_def coursesOf_Electronics new_Set_def set_add_def)
  have h2: "''AI/ML'' \<notin> set (selectedCourseCategories (handleCourseCategoryToggle ''Electronics'' initialPage))"
    by (simp add: c)
  show ?thesis
    using h1 h2 c n category_toggle_twice [OF h1 h2] by simp
qed



lemma parentSelected_cong:
  "selectedCourseNames q = selectedCourseNames p \<Longrightarrow>
   selectedCourseCategories q = selectedCourseCategories p \<Longrightarrow>
   parentSelected q = parentSelected p"
  by (simp add: parentSelected_iff)

lemma parentSelected_empty: "selectedCourseNames p = [] \<Longrightarrow> parentSelected p"
  by (simp add: parentSelected_def)

lemma handleUpload_selection:
  "(selectedCourseNames (fst (handleUpload backend p)) = selectedCourseNames p \<and>
    selectedCourseCategories (fst (handleUpload backend p)) = selectedCourseCategories p)
   \<or> selectedCourseNames (fst (handleUpload backend p)) = []"
  by (simp add: handleUpload_def Let_def split: upload_reply.split option.split)

lemma handleUpload_inv: "parentSelected p \<Longrightarrow> parentSelected (fst (handleUpload backend p))"
  using handleUpload_selection [of backend p] parentSelected_cong parentSelected_empty by blast

lemma fire_inv: "parentSelected p \<Longrightarrow> enabled p e \<Longrightarrow> parentSelected (fire e p)"
proof (cases e)
  case (ToggleCourseCategory c)
  assume "parentSelected p"
  then show ?thesis using ToggleCourseCategory by (simp add: toggleCat_inv)
next
  case (ToggleCourseName n)
  assume "parentSelected p" "enabled p e"
  then show ?thesis using ToggleCourseName by (simp add: toggleName_inv)
next
  case (SelectCategory g)
  assume "parentSelected p"
  then show ?thesis using SelectCategory by (simp add: parentSelected_iff)
next
  case (ChooseFile f)
  assume "parentSelected p"
  then show ?thesis using ChooseFile by (simp add: parentSelected_iff)
next
  case (Submit r)
  assume "parentSelected p"
  then show ?thesis using Submit by (simp add: handleUpload_inv)
qed

lemma runEvents_reachable:
  "reachable p \<Longrightarrow> runEvents es p = Some q \<Longrightarrow> reachable q"
proof (induction es arbitrary: p)
  case Nil
  then show ?case by simp
next
  case (Cons e es)
  from Cons.prems(2) have en: "enabled p e" and r: "runEvents es (fire e p) = Some q"
    by (auto split: if_splits)
  from Cons.prems(1) en have "reachable (fire e p)" by (rule reachable.step)
  with r show ?case by (rule Cons.IH [rotated])
qed

lemma runEvents_snoc:
  "runEvents es p = Some q \<Longrightarrow> enabled q e \<Longrightarrow> runEvents (es @ [e]) p = Some (fire e q)"
  by (induction es arbitrary: p) (auto split: if_splits)

lemma reachable_runEvents: "reachable p \<Longrightarrow> \<exists>es. runEvents es initialPage = Some p"
proof (induction rule: reachable.induct)
  case start
  have "runEvents [] initialPage = Some initialPage" by simp
  then show ?case by blast
next
  case (step p e)
  then obtain es where "runEvents es initialPage = Some p" by blast
  with step.hyps(2) have "runEvents (es @ [e]) initialPage = Some (fire e p)"
    by (simp add: runEvents_snoc)
  then show ?case by blast
qed

lemma reachable_iff_runEvents: "reachable p \<longleftrightarrow> (\<exists>es. runEvents es initialPage = Some p)"
  using reachable_runEvents runEvents_reachable [OF reachable.start] by blast

lemma aiml_page:
  "handleCourseCategoryToggle ''AI/ML'' initialPage =
     initialPage\<lparr> selectedCourseCategories := [''AI/ML''],
                  selectedCourseNames := coursesOf ''AI/ML'' \<rparr>"
  by (simp add: handleCourseCategoryToggle_def initialPage_def Let_def coursesOf_AIML new_Set_def set_add_def)

text \<open>
  Claim C3. On every page reachable from the initial one by the controls of the form, every
  selected course name has a parent category and that category is selected. Both toggles
  preserve this on any page, the course toggle for a name among the available courses.
\<close>

theorem parent_category_invariant:
  "(runEvents es initialPage = Some p \<longrightarrow> parentSelected p)
   \<and> (reachable p \<longrightarrow> parentSelected p)
   \<and> (parentSelected q \<longrightarrow> parentSelected (handleCourseCategoryToggle c q))
   \<and> (parentSelected q \<and> n \<in> set (availableCoursesForSelection q) \<longrightarrow>
        parentSelected (handleCourseNameToggle n q))"
proof -
  have r: "reachable p' \<Longrightarrow> parentSelected p'" for p'
  proof (induction rule: reachable.induct)
    case start
    show ?case by (simp add: parentSelected_empty initialPage_def)
  next
    case (step p e)
    then show ?case by (simp add: fire_inv)
  qed
  have "runEvents es initialPage = Some p \<longrightarrow> parentSelected p"
    using r runEvents_reachable [OF reachable.start] by blast
  with r show ?thesis by (simp add: toggleCat_inv toggleName_inv)
qed

theorem parent_category_invariant_witness:
  "runEvents [ToggleCourseCategory ''AI/ML'', ToggleCourseName ''Minor in AI''] initialPage =
     Some (handleCourseNameToggle ''Minor in AI'' (handleCourseCategoryToggle ''AI/ML'' initialPage))
   \<and> reachable (handleCourseNameToggle ''Minor in AI'' (handleCourseCategoryToggle ''AI/ML'' initialPage))
   \<and> parentSelected (handleCourseNameToggle ''Minor in AI'' (handleCourseCategoryToggle ''AI/ML'' initialPage))
   \<and> ''Minor in AI'' \<in> set (availableCoursesForSelection
         (handleCourseNameToggle ''Minor in AI'' (handleCourseCategoryToggle ''AI/ML'' initialPage)))
   \<and> parentSelected (handleCourseNameToggle ''Minor in AI''
         (handleCourseNameToggle ''Minor in AI'' (handleCourseCategoryToggle ''AI/ML'' initialPage)))
   \<and> parentSelected (handleCourseCategoryToggle ''AI/ML''
         (handleCourseNameToggle ''Minor in AI'' (handleCourseCategoryToggle ''AI/ML'' initialPage)))"
proof -
  let ?p1 = "handleCourseCategoryToggle ''AI/ML'' initialPage"
  let ?p2 = "handleCourseNameToggle ''Minor in AI'' ?p1"
  have k: "enabled initialPage (ToggleCourseCategory ''AI/ML'')"
    by (simp add: courseCategoryKeys_def courseCategories_def)
  have c1: "selectedCourseCategories ?p1 = [''AI/ML'']"
    by (simp add: aiml_page)
  have a1: "''Minor in AI'' \<in> set (availableCoursesForSelection ?p1)"
    by (simp add: availableCoursesForSelection_def c1 coursesOf_AIML)
  have e1: "enabled ?p1 (ToggleCourseName ''Minor in AI'')"
    using a1 c1 by simp
  have run: "runEvents [ToggleCourseCategory ''AI/ML'', ToggleCourseName ''Minor in AI''] initialPage =
     Some ?p2"
    using k e1 by simp
  have r2: "reachable ?p2"
    using run runEvents_reachable [OF reachable.start] by blast
  have fp: "findParentCategory courseCategories ''Minor in AI'' = Some ''AI/ML''"
    by (simp add: parent_iff coursesOf_AIML)
  have c2: "selectedCourseCategories ?p2 = [''AI/ML'']"
    by (auto simp add: cats_toggleName aiml_page fp coursesOf_AIML)
  have a2: "''Minor in AI'' \<in> set (availableCoursesForSelection ?p2)"
    by (simp add: availableCoursesForSelection_def c2 coursesOf_AIML)
  have i2: "parentSelected ?p2"
    using parent_category_invariant
      [of "[ToggleCourseCategory ''AI/ML'', ToggleCourseName ''Minor in AI'']" ?p2] run
    by simp
  show ?thesis
    using run r2 a2 i2
      parent_category_invariant [of "[]" ?p2 ?p2 "''AI/ML''" "''Minor in AI''"]
    by simp
qed

section \<open>Upload validation\<close>

lemma handleUpload_rejected:
  "chosenFile p = None \<or> selectedCategory p = [] \<or> selectedCourseCategories p = [] \<Longrightarrow>
   handleUpload backend p = (p\<lparr> error := uploadValidationMessage \<rparr>, [])"
  by (auto simp: handleUpload_def Let_def split: option.split)

lemma handleUpload_sent:
  "chosenFile p = Some f \<Longrightarrow> selectedCategory p \<noteq> [] \<Longrightarrow> selectedCourseCategories p \<noteq> [] \<Longrightarrow>
   set (snd (handleUpload backend p)) \<inter> range UploadDocument =
     {UploadDocument \<lparr> form_file = f, form_categories = [selectedCategory p],
        form_course_categories = selectedCourseCategories p,
        form_course_names = selectedCourseNames p \<rparr>}"
  by (auto simp: handleUpload_def Let_def split: upload_reply.split)

text \<open>
  Claim C8. \<open>handleUpload\<close> sends an upload request only when a top-level category is selected
  (the request carries exactly that one) and at least one course category is selected. When
  either is missing the submit button is disabled, and the handler sets the validation
  message, sends nothing and leaves the rest of the page as it is. With a file chosen as
  well, the request is sent.
\<close>

theorem upload_needs_category_and_course_categories:
  "(UploadDocument fd \<in> set (snd (handleUpload backend p)) \<longrightarrow>
      selectedCategory p \<noteq> [] \<and> form_categories fd = [selectedCategory p]
      \<and> selectedCourseCategories p \<noteq> []
      \<and> form_course_categories fd = selectedCourseCategories p)
   \<and> (selectedCategory p = [] \<or> selectedCourseCategories p = [] \<longrightarrow>
      handleUpload backend p = (p\<lparr> error := uploadValidationMessage \<rparr>, [])
      \<and> uploadDisabled p)
   \<and> (chosenFile p \<noteq> None \<and> selectedCategory p \<noteq> [] \<and> selectedCourseCategories p \<noteq> [] \<longrightarrow>
      (\<exists>fd'. UploadDocument fd' \<in> set (snd (handleUpload backend p))))"
proof -
  have a: "UploadDocument fd \<in> set (snd (handleUpload backend p)) \<longrightarrow>
      selectedCategory p \<noteq> [] \<and> form_categories fd = [selectedCategory p]
      \<and> selectedCourseCategories p \<noteq> []
      \<and> form_course_categories fd = selectedCourseCategories p"
  proof
    assume m: "UploadDocument fd \<in> set (snd (handleUpload backend p))"
    have ok: "\<not> (chosenFile p = None \<or> selectedCategory p = [] \<or> selectedCourseCategories p = [])"
    proof
      assume "chosenFile p = None \<or> selectedCategory p = [] \<or> selectedCourseCategories p = []"
      then have "snd (handleUpload backend p) = []" by (simp add: handleUpload_rejected)
      with m show False by simp
    qed
    then obtain f where f: "chosenFile p = Some f" by auto
    from m have "UploadDocument fd \<in> set (snd (handleUpload backend p)) \<inter> range UploadDocument"
      by simp
    with ok f have "fd = \<lparr> form_file = f, form_categories = [selectedCategory p],
        form_course_categories = selectedCourseCategories p,
        form_course_names = selectedCourseNames p \<rparr>"
      by (simp add: handleUpload_sent)
    with ok show "selectedCategory p \<noteq> [] \<and> form_categories fd = [selectedCategory p]
      \<and> selectedCourseCategories p \<noteq> []
      \<and> form_course_categories fd = selectedCourseCategories p" by simp
  qed
  have b: "selectedCategory p = [] \<or> selectedCourseCategories p = [] \<longrightarrow>
      handleUpload backend p = (p\<lparr> error := uploadValidationMessage \<rparr>, [])
      \<and> uploadDisabled p"
    using handleUpload_rejected [of p backend] by (auto simp: uploadDisabled_def)
  have c: "chosenFile p \<noteq> None \<and> selectedCategory p \<noteq> [] \<and> selectedCourseCategories p \<noteq> [] \<longrightarrow>
      (\<exists>fd'. UploadDocument fd' \<in> set (snd (handleUpload backend p)))"
  proof
    assume h: "chosenFile p \<noteq> None \<and> selectedCategory p \<noteq> [] \<and> selectedCourseCategories p \<noteq> []"
    then obtain f where f: "chosenFile p = Some f" by auto
    from handleUpload_sent [OF f, of backend] h
    show "\<exists>fd'. UploadDocument fd' \<in> set (snd (handleUpload backend p))" by blast
  qed
  from a b c show ?thesis by blast
qed

theorem upload_needs_category_and_course_categories_witness:
  "snd (handleUpload (\<lambda>_. UploadOk)
      (initialPage\<lparr> selectedCategory := ''qa_documents'',
                    selectedCourseCategories := [''Marketing''],
                    selectedCourseNames := [''Digital Marketing''],
                    chosenFile := Some ''faq.pdf'' \<rparr>))
     = [UploadDocument \<lparr> form_file = ''faq.pdf'', form_categories = [''qa_documents''],
          form_course_categories = [''Marketing''],
          form_course_names = [''Digital Marketing''] \<rparr>, ListDocuments]
   \<and> handleUpload (\<lambda>_. UploadOk)
      (initialPage\<lparr> selectedCategory := ''qa_documents'',
                    selectedCourseNames := [''Digital Marketing''],
                    chosenFile := Some ''faq.pdf'' \<rparr>)
     = (initialPage\<lparr> selectedCategory := ''qa_documents'',
                    selectedCourseNames := [''Digital Marketing''],
                    chosenFile := Some ''faq.pdf'',
                    error := uploadValidationMessage \<rparr>, [])"
proof -
  let ?p = "initialPage\<lparr> selectedCategory := ''qa_documents'',
                    selectedCourseCategories := [''Marketing''],
                    selectedCourseNames := [''Digital Marketing''],
                    chosenFile := Some ''faq.pdf'' \<rparr>"
  let ?q = "initialPage\<lparr> selectedCategory := ''qa_documents'',
                    selectedCourseNames := [''Digital Marketing''],
                    chosenFile := Some ''faq.pdf'' \<rparr>"
  have s: "snd (handleUpload (\<lambda>_. UploadOk) ?p)
     = [UploadDocument \<lparr> form_file = ''faq.pdf'', form_categories = [''qa_documents''],
          form_course_categories = [''Marketing''],
          form_course_names = [''Digital Marketing''] \<rparr>, ListDocuments]"
    by (simp add: handleUpload_def Let_def initialPage_def)
  have e: "selectedCourseCategories ?q = []" by (simp add: initialPage_def)
  show ?thesis
    using s e
      upload_needs_category_and_course_categories [of
        "\<lparr> form_file = ''faq.pdf'', form_categories = [''qa_documents''],
          form_course_categories = [''Marketing''],
          form_course_names = [''Digital Marketing''] \<rparr>" "\<lambda>_. UploadOk" ?p]
      upload_needs_category_and_course_categories [of _ "\<lambda>_. UploadOk" ?q]
    by simp
qed

section \<open>Ticket pages and routes\<close>

lemma ratingButtons_eq: "ratingButtons = [1, 2, 3, 4, 5]"
  by (simp add: ratingButtons_def ratingEmojis_def upt_rec)

lemma ratingButtons_iff: "rating \<in> set ratingButtons \<longleftrightarrow> 1 \<le> rating \<and> rating \<le> 5"
  by (auto simp: ratingButtons_eq)

lemma loadedStatus_samplePage: "loadedStatus (samplePage s) = Some s"
  by (simp add: loadedStatus_def samplePage_def sampleTicket_def)

lemma params_id_samplePage: "params_id (samplePage s) = ''TKT-1''"
  by (simp add: samplePage_def)


lemma ratingOf_JNull: "ratingOf parsed = Some r \<Longrightarrow> parsed \<noteq> JNull"
  by (cases parsed) simp_all

lemma rate_POST_parsed:
  "parsed \<noteq> JNull \<Longrightarrow>
   rate_POST (Some parsed) ticketId =
     (if \<exists>r. ratingOf parsed = Some r \<and> toStringThrows r
      then \<lparr> status_code = 500, body = (''error'', ''Failed to submit rating'') \<rparr>
      else \<lparr> status_code = 200, body = (''message'', ''Rating submitted successfully'') \<rparr>)"
  by (cases parsed; cases "ratingOf parsed") (simp_all add: rate_POST_def)

lemma rate_POST_failed:
  "rate_POST None ticketId =
     \<lparr> status_code = 500, body = (''error'', ''Failed to submit rating'') \<rparr>"
  "rate_POST (Some JNull) ticketId =
     \<lparr> status_code = 500, body = (''error'', ''Failed to submit rating'') \<rparr>"
  by (simp_all add: rate_POST_def)

text \<open>
  Claim C1, as stated, fails on the rate route: for a ticket that is Open and the rating 9
  the route answers with the success message.
\<close>

theorem rate_route_accepts_any_rating_counterexample:
  "td_status (sampleTicket Open) \<noteq> Resolved
   \<and> \<not> ((1::int) \<le> 9 \<and> (9::int) \<le> 5)
   \<and> rate_POST (Some (JObj [(''rating'', JNum (9::int))])) (td_id (sampleTicket Open)) =
       \<lparr> status_code = 200, body = (''message'', ''Rating submitted successfully'') \<rparr>"
  by (simp add: rate_POST_def sampleTicket_def)

text \<open>
  Claim C1, amended. The student page lets a rating be submitted exactly when the loaded
  ticket is Resolved and the rating is an integer from 1 to 5; it then remembers the rating
  and posts it. The rate route checks neither status nor range: it answers 500 when the body
  is no JSON, is \<open>null\<close>, or holds a rating whose conversion to a string throws, and the
  success message for every other body; in particular for every body whose rating is a number.
\<close>

theorem rating_offered_iff:
  "clickRating rating pg =
     (if loadedStatus pg = Some Resolved \<and> 1 \<le> rating \<and> rating \<le> 5
      then Some (pg\<lparr> selectedRating := Some rating \<rparr>, [RateCall (params_id pg) rating])
      else None)
   \<and> rate_POST requestBody ticketId =
     (if requestBody = None \<or> requestBody = Some JNull \<or>
         (\<exists>parsed r. requestBody = Some parsed \<and> ratingOf parsed = Some r \<and> toStringThrows r)
      then \<lparr> status_code = 500, body = (''error'', ''Failed to submit rating'') \<rparr>
      else \<lparr> status_code = 200, body = (''message'', ''Rating submitted successfully'') \<rparr>)
   \<and> (ratingOf parsed' = Some (JNum x) \<longrightarrow>
        rate_POST (Some parsed') ticketId =
          \<lparr> status_code = 200, body = (''message'', ''Rating submitted successfully'') \<rparr>)"
proof -
  have a: "clickRating rating pg =
     (if loadedStatus pg = Some Resolved \<and> 1 \<le> rating \<and> rating \<le> 5
      then Some (pg\<lparr> selectedRating := Some rating \<rparr>, [RateCall (params_id pg) rating])
      else None)"
    by (simp add: clickRating_def ratingSectionShown_def ratingButtons_iff handleRating_def)
  have b: "rate_POST requestBody ticketId =
     (if requestBody = None \<or> requestBody = Some JNull \<or>
         (\<exists>parsed r. requestBody = Some parsed \<and> ratingOf parsed = Some r \<and> toStringThrows r)
      then \<lparr> status_code = 500, body = (''error'', ''Failed to submit rating'') \<rparr>
      else \<lparr> status_code = 200, body = (''message'', ''Rating submitted successfully'') \<rparr>)"
  proof (cases requestBody)
    case None
    then show ?thesis by (simp add: rate_POST_failed)
  next
    case (Some parsed)
    show ?thesis
    proof (cases "parsed = JNull")
      case True
      with Some show ?thesis by (simp add: rate_POST_failed)
    next
      case False
      with Some show ?thesis by (simp add: rate_POST_parsed)
    qed
  qed
  have c: "ratingOf parsed' = Some (JNum x) \<longrightarrow>
        rate_POST (Some parsed') ticketId =
          \<lparr> status_code = 200, body = (''message'', ''Rating submitted successfully'') \<rparr>"
  proof
    assume r: "ratingOf parsed' = Some (JNum x)"
    then have "parsed' \<noteq> JNull" by (rule ratingOf_JNull)
    with r show "rate_POST (Some parsed') ticketId =
          \<lparr> status_code = 200, body = (''message'', ''Rating submitted successfully'') \<rparr>"
      by (simp add: rate_POST_parsed)
  qed
  from a b c show ?thesis by blast
qed

theorem rating_offered_iff_witness:
  "loadedStatus (samplePage Resolved) = Some Resolved
   \<and> clickRating 4 (samplePage Resolved) =
       Some ((samplePage Resolved)\<lparr> selectedRating := Some 4 \<rparr>, [RateCall ''TKT-1'' 4])
   \<and> clickRating 4 (samplePage Closed) = None
   \<and> clickRating 6 (samplePage Resolved) = None
   \<and> ratingOf (JObj [(''rating'', JNum (4::int))]) = Some (JNum 4)
   \<and> rate_POST (Some (JObj [(''rating'', JNum (4::int))])) ''TKT-1'' =
       \<lparr> status_code = 200, body = (''message'', ''Rating submitted successfully'') \<rparr>
   \<and> rate_POST (Some (JObj [(''rating'', JObj [(''toString'', JNum (0::int))])])) ''TKT-1'' =
       \<lparr> status_code = 500, body = (''error'', ''Failed to submit rating'') \<rparr>
   \<and> rate_POST (None :: int json option) ''TKT-1'' =
       \<lparr> status_code = 500, body = (''error'', ''Failed to submit rating'') \<rparr>"
proof -
  have r: "ratingOf (JObj [(''rating'', JNum (4::int))]) = Some (JNum 4)" by simp
  have t: "ratingOf (JObj [(''rating'', JObj [(''toString'', JNum (0::int))])]) =
             Some (JObj [(''toString'', JNum 0)])
           \<and> toStringThrows (JObj [(''toString'', JNum (0::int))])" by simp
  show ?thesis
    using r t
      rating_offered_iff [of 4 "samplePage Resolved" "None :: int json option" "''TKT-1''"
        "JObj [(''rating'', JNum (4::int))]" 4]
      rating_offered_iff [of 4 "samplePage Closed"
        "Some (JObj [(''rating'', JObj [(''toString'', JNum (0::int))])])" "''TKT-1''"
        "JObj [(''rating'', JNum (4::int))]" 4]
      rating_offered_iff [of 6 "samplePage Resolved" "None :: int json option" "''TKT-1''"
        "JObj [(''rating'', JNum (4::int))]" 4]
    by (simp add: loadedStatus_samplePage params_id_samplePage)
qed




text \<open>
  Claim C7, as stated, fails twice: for a Closed ticket the page offers no reopen, and for
  an Open ticket the reopen route answers with the success message.
\<close>

theorem reopen_closed_and_open_counterexample:
  "td_status (sampleTicket Closed) = Closed
   \<and> clickReopen (samplePage Closed) = None
   \<and> td_status (sampleTicket Open) = Open
   \<and> reopen_POST (td_id (sampleTicket Open)) =
       \<lparr> status_code = 200, body = (''message'', ''Ticket reopened successfully'') \<rparr>"
  by (simp add: clickReopen_def reopenButtonShown_def loadedStatus_samplePage
        reopen_POST_def sampleTicket_def)

text \<open>
  Claim C7, amended. The student page offers reopen exactly when the loaded ticket is
  Resolved; the handler posts to the backend and writes nothing to the page, so ticket and
  conversation stay as they are. The reopen route answers every request with the success
  message and reads no ticket.
\<close>

theorem reopen_offered_iff_resolved:
  "clickReopen pg =
     (if loadedStatus pg = Some Resolved then Some (pg, [ReopenCall (params_id pg)]) else None)
   \<and> reopen_POST ticketId =
       \<lparr> status_code = 200, body = (''message'', ''Ticket reopened successfully'') \<rparr>"
  by (simp add: clickReopen_def reopenButtonShown_def handleReopenTicket_def reopen_POST_def)

theorem reopen_offered_iff_resolved_witness:
  "loadedStatus (samplePage Resolved) = Some Resolved
   \<and> clickReopen (samplePage Resolved) = Some (samplePage Resolved, [ReopenCall ''TKT-1''])
   \<and> clickReopen (samplePage StudentActionRequired) = None"
  using reopen_offered_iff_resolved [of "samplePage Resolved"]
    reopen_offered_iff_resolved [of "samplePage StudentActionRequired"]
  by (simp add: loadedStatus_samplePage params_id_samplePage)

end
